theory Spec2Isabelle
  imports Main
begin

section \<open>JavaScript values and strings\<close>

text \<open>
  The request fields reach the service untyped (\<^verbatim>\<open>req.body\<close>), so a field the types
  declare a string may be \<^verbatim>\<open>undefined\<close> at run time. A JavaScript string is the list of
  its UTF-16 code units, each a natural number; a value is a string or \<^verbatim>\<open>undefined\<close>
  (\<open>None\<close>), and bound as a statement parameter \<^verbatim>\<open>undefined\<close> is SQL's NULL. Values of
  other JSON types are not modelled. The messages and the column names that the program
  itself writes stay \<open>string\<close>s.
\<close>

type_synonym jsstring = "nat list"

type_synonym jsval = "jsstring option"

text \<open>An ASCII literal as a JavaScript string: \<open>str ''NY''\<close> is \<open>[78, 89]\<close>.\<close>

definition str :: "string \<Rightarrow> jsstring" where
  "str s = map of_char s"

text \<open>\<^verbatim>\<open>!v\<close>: a value is falsy when it is \<^verbatim>\<open>undefined\<close> or the empty string.\<close>

definition falsy :: "jsval \<Rightarrow> bool" where
  "falsy v = (case v of None \<Rightarrow> True | Some s \<Rightarrow> s = [])"

text \<open>\<^verbatim>\<open>${v || ''}\<close>: the string itself, or the empty string for a falsy value.\<close>

definition or_empty :: "jsval \<Rightarrow> jsstring" where
  "or_empty v = (case v of None \<Rightarrow> [] | Some s \<Rightarrow> if s = [] then [] else s)"

subsection \<open>Letter case\<close>

text \<open>
  Two strings differ only by letter case when they have the same length and, position by
  position, hold the same code unit or the capital and the small form of one letter. The
  pairs listed are those of the Latin letters \<open>A\<close>..\<open>Z\<close> (65 to 90, the small letter 32
  higher) and of the Greek letters alpha to omega (capitals 913 to 937 without the
  unassigned 930, the small letter 32 higher); the capital sigma (931) has two small forms,
  the sigma (963) and the final sigma (962) that ends a word.
\<close>

definition case_pair :: "nat \<Rightarrow> nat \<Rightarrow> bool" where
  "case_pair c d =
     ((65 \<le> c \<and> c \<le> 90 \<and> d = c + 32) \<or>
      (913 \<le> c \<and> c \<le> 937 \<and> c \<noteq> 930 \<and> d = c + 32) \<or>
      (c = 931 \<and> d = 962))"

definition same_letter :: "nat \<Rightarrow> nat \<Rightarrow> bool" where
  "same_letter c d = (c = d \<or> case_pair c d \<or> case_pair d c)"

definition case_variant :: "jsstring \<Rightarrow> jsstring \<Rightarrow> bool" where
  "case_variant s t = list_all2 same_letter s t"

definition jsval_case_variant :: "jsval \<Rightarrow> jsval \<Rightarrow> bool" where
  "jsval_case_variant v w =
     (case v of
        None \<Rightarrow> w = None
      | Some s \<Rightarrow> (case w of None \<Rightarrow> False | Some t \<Rightarrow> case_variant s t))"

text \<open>
  \<^verbatim>\<open>String.prototype.toLowerCase\<close> is the runtime's, not the repository's: the lower-casing
  of Unicode, where the small form of a letter can depend on its neighbours (the capital
  sigma) and a string can change its length. The functions that call it take it as their
  argument \<open>lower\<close>. On a string of ASCII characters (code units below 128) it moves
  \<open>A\<close>..\<open>Z\<close> to \<open>a\<close>..\<open>z\<close> and leaves the rest; \<open>lowers_ascii\<close> says so of an
  argument \<open>lower\<close>, and says nothing of the other strings.
\<close>

definition is_ascii :: "jsstring \<Rightarrow> bool" where
  "is_ascii s = list_all (\<lambda>c. c < 128) s"

definition ascii_lower :: "nat \<Rightarrow> nat" where
  "ascii_lower c = (if 65 \<le> c \<and> c \<le> 90 then c + 32 else c)"

definition lowers_ascii :: "(jsstring \<Rightarrow> jsstring) \<Rightarrow> bool" where
  "lowers_ascii lower = (\<forall>s. is_ascii s \<longrightarrow> lower s = map ascii_lower s)"

section \<open>Errors\<close>

text \<open>
  \<open>TypeError\<close> is the runtime's (a method called on \<^verbatim>\<open>undefined\<close>), \<open>Error m\<close> is
  \<^verbatim>\<open>throw new Error(m)\<close>, and \<open>DatabaseError m\<close> is a statement the database rejects.
\<close>

datatype error = TypeError | Error string | DatabaseError string

section \<open>The hasher (utils/hash.ts)\<close>

text \<open>
  The digests come from Node's \<^verbatim>\<open>crypto\<close> module, which is not part of the repository
  either: each function below takes the lower-casing \<open>lower\<close> and the digest it uses
  (\<open>md5\<close> or \<open>sha256\<close>, from a string to its hexadecimal digest) as its first arguments.
\<close>

record AddressType =
  country_id :: jsval
  city :: jsval
  state :: jsval
  zip_code :: jsval

record UserType =
  first_name :: jsval
  last_name :: jsval
  email :: jsval

definition createHash :: "(jsstring \<Rightarrow> jsstring) \<Rightarrow> jsstring \<Rightarrow> jsstring" where
  "createHash sha256 data = sha256 data"

definition hashString :: "(jsstring \<Rightarrow> jsstring) \<Rightarrow> 'a AddressType_scheme \<Rightarrow> jsstring" where
  "hashString lower address =
     lower (or_empty (country_id address) @ or_empty (city address) @
            or_empty (state address) @ or_empty (zip_code address))"

definition createAddressHash ::
  "(jsstring \<Rightarrow> jsstring) \<Rightarrow> (jsstring \<Rightarrow> jsstring) \<Rightarrow> 'a AddressType_scheme \<Rightarrow> jsstring"
where
  "createAddressHash lower md5 address = md5 (hashString lower address)"

text \<open>\<^verbatim>\<open>email.toLowerCase()\<close> throws a TypeError when \<^verbatim>\<open>email\<close> is \<^verbatim>\<open>undefined\<close>.\<close>

definition createUserHash ::
  "(jsstring \<Rightarrow> jsstring) \<Rightarrow> (jsstring \<Rightarrow> jsstring) \<Rightarrow> jsval \<Rightarrow> error + jsstring"
where
  "createUserHash lower sha256 email_arg =
     (case email_arg of
        None \<Rightarrow> Inl TypeError
      | Some e \<Rightarrow> Inr (createHash sha256 (lower e)))"

text \<open>Two address field sets differ only by letter case when each pair of fields does.\<close>

definition address_case_variant :: "'a AddressType_scheme \<Rightarrow> 'b AddressType_scheme \<Rightarrow> bool" where
  "address_case_variant a b =
     (jsval_case_variant (country_id a) (country_id b) \<and>
      jsval_case_variant (city a) (city b) \<and>
      jsval_case_variant (state a) (state b) \<and>
      jsval_case_variant (zip_code a) (zip_code b))"

text \<open>An address field set of ASCII text: each field that is there is an ASCII string.\<close>

definition address_ascii :: "'a AddressType_scheme \<Rightarrow> bool" where
  "address_ascii a =
     (is_ascii (or_empty (country_id a)) \<and> is_ascii (or_empty (city a)) \<and>
      is_ascii (or_empty (state a)) \<and> is_ascii (or_empty (zip_code a)))"

text \<open>The field set after normalisation: each field with \<^verbatim>\<open>|| ''\<close> and lower-cased.\<close>

definition normalized_fields ::
  "(jsstring \<Rightarrow> jsstring) \<Rightarrow> 'a AddressType_scheme \<Rightarrow> jsstring list"
where
  "normalized_fields lower a =
     [lower (or_empty (country_id a)), lower (or_empty (city a)),
      lower (or_empty (state a)), lower (or_empty (zip_code a))]"

section \<open>The tables and the statements (db.service.ts)\<close>

text \<open>
  The schema is not among the sources. The tables are taken as the statements of the
  service use them: \<^verbatim>\<open>address_tbl\<close> with primary key \<^verbatim>\<open>address_key\<close>,
  \<^verbatim>\<open>user_tbl\<close> with primary key \<^verbatim>\<open>user_key\<close> and a unique \<^verbatim>\<open>email\<close>, and
  \<^verbatim>\<open>user_address_link_tbl\<close> of pairs of keys. A key column is never NULL; the other
  columns may be. The timestamp columns, which no statement reads or writes, are left out.
  A table is the list of its rows in insertion order, and the executor is taken to be
  available: a statement fails only when the database rejects it.
\<close>

record address_row = AddressType +
  address_key :: jsstring

record user_row = UserType +
  user_key :: jsstring

record link_row =
  link_user_key :: jsstring
  link_address_key :: jsstring

record database =
  address_tbl :: "address_row list"
  user_tbl :: "user_row list"
  user_address_link_tbl :: "link_row list"

text \<open>\<^verbatim>\<open>column = $1\<close>: SQL's equality is never true of a NULL.\<close>

definition sql_eq :: "jsval \<Rightarrow> jsval \<Rightarrow> bool" where
  "sql_eq a b = (case a of None \<Rightarrow> False | Some x \<Rightarrow> b = Some x)"

text \<open>\<^verbatim>\<open>result.rows[0]\<close> (and \<^verbatim>\<open>result.rows[0] || null\<close>): the first row, if any.\<close>

definition first_row :: "'a list \<Rightarrow> 'a option" where
  "first_row rows = (case rows of [] \<Rightarrow> None | r # _ \<Rightarrow> Some r)"

text \<open>\<^verbatim>\<open>SELECT * FROM address_tbl WHERE address_key = $1\<close>\<close>

definition select_address_by_key :: "database \<Rightarrow> jsstring \<Rightarrow> address_row list" where
  "select_address_by_key st k = filter (\<lambda>r. address_key r = k) (address_tbl st)"

text \<open>\<^verbatim>\<open>SELECT * FROM user_tbl WHERE email = $1\<close>\<close>

definition select_user_by_email :: "database \<Rightarrow> jsval \<Rightarrow> user_row list" where
  "select_user_by_email st e = filter (\<lambda>r. sql_eq (email r) e) (user_tbl st)"

text \<open>\<^verbatim>\<open>INSERT INTO address_tbl ... ON CONFLICT (address_key) DO NOTHING RETURNING *\<close>:
  the new state and the rows returned.\<close>

definition insert_address :: "database \<Rightarrow> address_row \<Rightarrow> database \<times> address_row list" where
  "insert_address st r =
     (if address_key r \<in> set (map address_key (address_tbl st)) then (st, [])
      else (st\<lparr>address_tbl := address_tbl st @ [r]\<rparr>, [r]))"

text \<open>\<^verbatim>\<open>INSERT INTO user_tbl ... ON CONFLICT (user_key) DO NOTHING RETURNING *\<close>: a
  conflict on the key inserts nothing and returns no row; a conflict on the unique email
  alone is not covered by the clause and is rejected.\<close>

definition insert_user :: "database \<Rightarrow> user_row \<Rightarrow> error + database \<times> user_row list" where
  "insert_user st r =
     (if user_key r \<in> set (map user_key (user_tbl st)) then Inr (st, [])
      else if select_user_by_email st (email r) \<noteq> []
        then Inl (DatabaseError ''duplicate key value violates unique constraint'')
      else Inr (st\<lparr>user_tbl := user_tbl st @ [r]\<rparr>, [r]))"

definition getAddressById :: "database \<Rightarrow> jsstring \<Rightarrow> address_row option" where
  "getAddressById st addressKey = first_row (select_address_by_key st addressKey)"

definition getUserByEmail :: "database \<Rightarrow> jsval \<Rightarrow> user_row option" where
  "getUserByEmail st email_arg = first_row (select_user_by_email st email_arg)"

definition createAddress ::
  "(jsstring \<Rightarrow> jsstring) \<Rightarrow> (jsstring \<Rightarrow> jsstring) \<Rightarrow> database \<Rightarrow> 'a AddressType_scheme \<Rightarrow>
     database \<times> address_row option"
where
  "createAddress lower md5 st addressData =
     (let key = createAddressHash lower md5 addressData in
      case getAddressById st key of
        Some existingAddress \<Rightarrow> (st, Some existingAddress)
      | None \<Rightarrow>
          (case insert_address st
                  \<lparr>country_id = country_id addressData, city = city addressData,
                   state = state addressData, zip_code = zip_code addressData,
                   address_key = key\<rparr> of
             (st', rows) \<Rightarrow> (st', first_row rows)))"

definition createUser ::
  "(jsstring \<Rightarrow> jsstring) \<Rightarrow> (jsstring \<Rightarrow> jsstring) \<Rightarrow> database \<Rightarrow> 'a UserType_scheme \<Rightarrow>
     database \<times> (error + user_row)"
where
  "createUser lower sha256 st userData =
     (case createUserHash lower sha256 (email userData) of
        Inl e \<Rightarrow> (st, Inl e)
      | Inr key \<Rightarrow>
          (case getUserByEmail st (email userData) of
             Some existingUser \<Rightarrow> (st, Inr existingUser)
           | None \<Rightarrow>
               (case insert_user st
                       \<lparr>first_name = first_name userData, last_name = last_name userData,
                        email = email userData, user_key = key\<rparr> of
                  Inl e \<Rightarrow> (st, Inl e)
                | Inr (st', rows) \<Rightarrow>
                    (case first_row rows of
                       None \<Rightarrow> (st', Inl (Error ''Email already exists''))
                     | Some r \<Rightarrow> (st', Inr r)))))"

subsection \<open>getUserByKey\<close>

text \<open>
  The statement of \<^verbatim>\<open>getUserByKey\<close> joins \<^verbatim>\<open>user_tbl\<close> and \<^verbatim>\<open>address_tbl\<close> on
  \<^verbatim>\<open>user_tbl.use_key = address_tbl.user_key\<close> and filters on \<^verbatim>\<open>user_key = $1\<close>. The
  database resolves the column names of a statement before it reads any row, and rejects
  the statement when a name does not resolve. The columns of the two tables are those the
  INSERT statements of the service name.
\<close>

definition user_tbl_columns :: "string list" where
  "user_tbl_columns = [''user_key'', ''first_name'', ''last_name'', ''email'']"

definition address_tbl_columns :: "string list" where
  "address_tbl_columns = [''address_key'', ''country_id'', ''city'', ''state'', ''zip_code'']"

datatype column_ref = Qualified string string | Unqualified string

fun resolve_column :: "(string \<times> string list) list \<Rightarrow> column_ref \<Rightarrow> error + string \<times> string" where
  "resolve_column tables (Qualified t c) =
     (case map_of tables t of
        None \<Rightarrow> Inl (DatabaseError (''missing FROM-clause entry for table '' @ t))
      | Some cols \<Rightarrow>
          if c \<in> set cols then Inr (t, c)
          else Inl (DatabaseError (''column '' @ t @ ''.'' @ c @ '' does not exist'')))"
| "resolve_column tables (Unqualified c) =
     (case filter (\<lambda>tc. c \<in> set (snd tc)) tables of
        [] \<Rightarrow> Inl (DatabaseError (''column '' @ c @ '' does not exist''))
      | [tc] \<Rightarrow> Inr (fst tc, c)
      | _ \<Rightarrow> Inl (DatabaseError (''column reference '' @ c @ '' is ambiguous'')))"

text \<open>The value of a resolved column in a row of the join.\<close>

definition column_value :: "string \<times> string \<Rightarrow> user_row \<times> address_row \<Rightarrow> jsval" where
  "column_value tc ua =
     (case tc of (t, c) \<Rightarrow> case ua of (u, a) \<Rightarrow>
        if t = ''user_tbl'' then
          (if c = ''user_key'' then Some (user_key u)
           else if c = ''first_name'' then first_name u
           else if c = ''last_name'' then last_name u
           else if c = ''email'' then email u
           else None)
        else
          (if c = ''address_key'' then Some (address_key a)
           else if c = ''country_id'' then country_id a
           else if c = ''city'' then city a
           else if c = ''state'' then state a
           else if c = ''zip_code'' then zip_code a
           else None))"

definition getUserByKey_tables :: "(string \<times> string list) list" where
  "getUserByKey_tables = [(''user_tbl'', user_tbl_columns), (''address_tbl'', address_tbl_columns)]"

definition getUserByKey :: "database \<Rightarrow> jsstring \<Rightarrow> error + (user_row \<times> address_row) option" where
  "getUserByKey st userKey =
     (case resolve_column getUserByKey_tables (Qualified ''user_tbl'' ''use_key'') of
        Inl e \<Rightarrow> Inl e
      | Inr l \<Rightarrow>
     (case resolve_column getUserByKey_tables (Qualified ''address_tbl'' ''user_key'') of
        Inl e \<Rightarrow> Inl e
      | Inr r \<Rightarrow>
     (case resolve_column getUserByKey_tables (Unqualified ''user_key'') of
        Inl e \<Rightarrow> Inl e
      | Inr w \<Rightarrow>
          Inr (first_row
                 (filter (\<lambda>ua. sql_eq (column_value l ua) (column_value r ua) \<and>
                                sql_eq (column_value w ua) (Some userKey))
                    (List.product (user_tbl st) (address_tbl st)))))))"

subsection \<open>deleteUserAddressByEmail\<close>

text \<open>\<^verbatim>\<open>DELETE FROM user_address_link_tbl WHERE user_key = $1\<close>\<close>

definition delete_links :: "database \<Rightarrow> jsstring \<Rightarrow> database" where
  "delete_links st k =
     st\<lparr>user_address_link_tbl := filter (\<lambda>l. link_user_key l \<noteq> k) (user_address_link_tbl st)\<rparr>"

text \<open>\<^verbatim>\<open>DELETE FROM address_tbl WHERE address_key NOT IN
  (SELECT address_key FROM user_address_link_tbl)\<close>\<close>

definition delete_orphaned_addresses :: "database \<Rightarrow> database" where
  "delete_orphaned_addresses st =
     st\<lparr>address_tbl :=
          filter (\<lambda>a. address_key a \<in> set (map link_address_key (user_address_link_tbl st)))
            (address_tbl st)\<rparr>"

text \<open>\<^verbatim>\<open>DELETE FROM user_tbl WHERE user_key = $1\<close>\<close>

definition delete_user :: "database \<Rightarrow> jsstring \<Rightarrow> database" where
  "delete_user st k = st\<lparr>user_tbl := filter (\<lambda>u. user_key u \<noteq> k) (user_tbl st)\<rparr>"

text \<open>\<^verbatim>\<open>userResult.rows[0]?.user_key\<close> of \<^verbatim>\<open>SELECT user_key FROM user_tbl WHERE email = $1\<close>;
  \<^verbatim>\<open>!userKey\<close> then holds of \<^verbatim>\<open>undefined\<close> and of the empty string.\<close>

definition select_user_key :: "database \<Rightarrow> jsval \<Rightarrow> jsval" where
  "select_user_key st email_arg =
     (case first_row (select_user_by_email st email_arg) of
        None \<Rightarrow> None
      | Some r \<Rightarrow> Some (user_key r))"

definition deleteUserAddressByEmail :: "database \<Rightarrow> jsval \<Rightarrow> database \<times> string" where
  "deleteUserAddressByEmail st email_arg =
     (case select_user_key st email_arg of
        None \<Rightarrow> (st, ''User not found'')
      | Some userKey \<Rightarrow>
          if userKey = [] then (st, ''User not found'')
          else
            (let st1 = delete_links st userKey;
                 st2 = delete_orphaned_addresses st1;
                 st3 = delete_user st2 userKey
             in (st3, ''User and associated address data deleted successfully'')))"

subsection \<open>updateUser\<close>

text \<open>\<^verbatim>\<open>UPDATE user_tbl SET first_name = $2, last_name = $3 WHERE email = $1\<close>\<close>

definition update_names :: "database \<Rightarrow> jsval \<Rightarrow> jsval \<Rightarrow> jsval \<Rightarrow> database" where
  "update_names st e f l =
     st\<lparr>user_tbl :=
          map (\<lambda>r. if sql_eq (email r) e then r\<lparr>first_name := f, last_name := l\<rparr> else r)
            (user_tbl st)\<rparr>"

definition updateUser ::
  "database \<Rightarrow> jsval \<Rightarrow> jsval \<Rightarrow> jsval \<Rightarrow> database \<times> (error + UserType)"
where
  "updateUser st email_arg first_name_arg last_name_arg =
     (if falsy email_arg \<or> falsy first_name_arg \<or> falsy last_name_arg
        then (st, Inl (Error ''Missing required fields''))
      else if length (select_user_by_email st email_arg) = 0
        then (st, Inl (Error ''User not found''))
      else (update_names st email_arg first_name_arg last_name_arg,
            Inr \<lparr>first_name = first_name_arg, last_name = last_name_arg,
                 email = email_arg\<rparr>))"

text \<open>The uniqueness constraint on \<^verbatim>\<open>email\<close>: no two rows hold the same non-NULL email.\<close>

definition unique_email :: "database \<Rightarrow> bool" where
  "unique_email st = distinct (filter (\<lambda>v. v \<noteq> None) (map email (user_tbl st)))"

section \<open>Example data\<close>

text \<open>
  Concrete requests and tables, used to run the service at explicit inputs. Where a run
  needs a digest, the identity stands for it: the facts proved of the service hold for
  every digest, and none of the runs depends on which one it is.
\<close>

subsection \<open>The lower-casing of the runs\<close>

text \<open>
  For \<open>lower\<close> the runs take \<open>toLowerCase_sample\<close>, which is
  \<^verbatim>\<open>String.prototype.toLowerCase\<close> on the strings the runs give it: every string of
  ASCII characters, and the strings made of ASCII letters, ASCII digits and the Greek
  letters alpha to omega. A capital moves to its small letter; the capital sigma (931)
  becomes the final sigma (962) when a letter stands before it and no letter after it, and
  the sigma (963) otherwise. \<open>lower_units\<close> goes through the string with the flag
  "the code unit before is a letter".
\<close>

definition cased_letter :: "nat \<Rightarrow> bool" where
  "cased_letter c =
     ((65 \<le> c \<and> c \<le> 90) \<or> (97 \<le> c \<and> c \<le> 122) \<or>
      (913 \<le> c \<and> c \<le> 937 \<and> c \<noteq> 930) \<or> (945 \<le> c \<and> c \<le> 969))"

fun lower_units :: "bool \<Rightarrow> jsstring \<Rightarrow> jsstring" where
  "lower_units after_letter [] = []"
| "lower_units after_letter (c # cs) =
     (if c = 931 then
        (if after_letter \<and> \<not> (case cs of [] \<Rightarrow> False | d # _ \<Rightarrow> cased_letter d)
         then 962 else 963)
      else if 913 \<le> c \<and> c \<le> 937 \<and> c \<noteq> 930 then c + 32
      else ascii_lower c) # lower_units (cased_letter c) cs"

definition toLowerCase_sample :: "jsstring \<Rightarrow> jsstring" where
  "toLowerCase_sample s = lower_units False s"

subsection \<open>Requests and tables\<close>

definition empty_db :: database where
  "empty_db = \<lparr>address_tbl = [], user_tbl = [], user_address_link_tbl = []\<rparr>"

definition addr_upper :: AddressType where
  "addr_upper = \<lparr>country_id = Some (str ''US''), city = Some (str ''New York''),
                  state = Some (str ''NY''), zip_code = Some (str ''10001'')\<rparr>"

definition addr_lower :: AddressType where
  "addr_lower = \<lparr>country_id = Some (str ''us''), city = Some (str ''new york''),
                  state = Some (str ''ny''), zip_code = Some (str ''10001'')\<rparr>"



text \<open>The Greek word for street, in capitals, in small letters with the sigma, and as
  its lower case is written, with the final sigma.\<close>

definition odos_capital :: jsstring where
  "odos_capital = [927, 916, 927, 931]"

definition odos_small :: jsstring where
  "odos_small = [959, 948, 959, 963]"

definition odos_final :: jsstring where
  "odos_final = [959, 948, 959, 962]"

definition addr_odos_capital :: AddressType where
  "addr_odos_capital = \<lparr>country_id = Some (str ''US''), city = Some odos_capital,
                         state = Some [], zip_code = Some (str ''10001'')\<rparr>"

definition addr_odos_small :: AddressType where
  "addr_odos_small = \<lparr>country_id = Some (str ''us''), city = Some odos_small,
                       state = Some [], zip_code = Some (str ''10001'')\<rparr>"





definition user_john :: UserType where
  "user_john = \<lparr>first_name = Some (str ''John''), last_name = Some (str ''Doe''),
                 email = Some (str ''john.doe@example.com'')\<rparr>"

definition user_johnny :: UserType where
  "user_johnny = \<lparr>first_name = Some (str ''Johnny''), last_name = Some (str ''D''),
                   email = Some (str ''john.doe@example.com'')\<rparr>"

definition user_john_caps :: UserType where
  "user_john_caps = \<lparr>first_name = Some (str ''John''), last_name = Some (str ''Doe''),
                      email = Some (str ''John.Doe@Example.com'')\<rparr>"

definition row_john :: user_row where
  "row_john = \<lparr>first_name = Some (str ''John''), last_name = Some (str ''Doe''),
                email = Some (str ''john.doe@example.com''),
                user_key = str ''john.doe@example.com''\<rparr>"

definition row_jane :: user_row where
  "row_jane = \<lparr>first_name = Some (str ''Jane''), last_name = Some (str ''Roe''),
                email = Some (str ''jane@example.com''),
                user_key = str ''jane@example.com''\<rparr>"

definition db_jane :: database where
  "db_jane = \<lparr>address_tbl = [], user_tbl = [row_jane], user_address_link_tbl = []\<rparr>"

definition db_jane_john :: database where
  "db_jane_john = \<lparr>address_tbl = [], user_tbl = [row_jane, row_john], user_address_link_tbl = []\<rparr>"

definition db_john :: database where
  "db_john = \<lparr>address_tbl = [], user_tbl = [row_john], user_address_link_tbl = []\<rparr>"

definition row_ann :: user_row where
  "row_ann = \<lparr>first_name = Some (str ''Ann''), last_name = Some (str ''Lee''),
               email = Some (str ''ann@example.com''), user_key = str ''k-ann''\<rparr>"

definition row_bob :: user_row where
  "row_bob = \<lparr>first_name = Some (str ''Bob''), last_name = Some (str ''Ray''),
               email = Some (str ''bob@example.com''), user_key = str ''k-bob''\<rparr>"

definition addr_shared :: address_row where
  "addr_shared = \<lparr>country_id = Some (str ''US''), city = Some (str ''Boston''),
                   state = Some (str ''MA''), zip_code = Some (str ''02108''),
                   address_key = str ''a-shared''\<rparr>"

definition addr_sole :: address_row where
  "addr_sole = \<lparr>country_id = Some (str ''US''), city = Some (str ''Austin''),
                 state = Some (str ''TX''), zip_code = Some (str ''73301''),
                 address_key = str ''a-sole''\<rparr>"

definition addr_unlinked :: address_row where
  "addr_unlinked = \<lparr>country_id = Some (str ''US''), city = Some (str ''Reno''),
                     state = Some (str ''NV''), zip_code = Some (str ''89501''),
                     address_key = str ''a-unlinked''\<rparr>"

definition db_linked :: database where
  "db_linked =
     \<lparr>address_tbl = [addr_shared, addr_sole, addr_unlinked],
      user_tbl = [row_ann, row_bob],
      user_address_link_tbl =
        [\<lparr>link_user_key = str ''k-ann'', link_address_key = str ''a-shared''\<rparr>,
         \<lparr>link_user_key = str ''k-bob'', link_address_key = str ''a-shared''\<rparr>,
         \<lparr>link_user_key = str ''k-ann'', link_address_key = str ''a-sole''\<rparr>]\<rparr>"

definition db_after_ann :: database where
  "db_after_ann =
     \<lparr>address_tbl = [addr_shared],
      user_tbl = [row_bob],
      user_address_link_tbl =
        [\<lparr>link_user_key = str ''k-bob'', link_address_key = str ''a-shared''\<rparr>]\<rparr>"

definition split_left :: AddressType where
  "split_left = \<lparr>country_id = Some (str ''US''), city = Some (str ''Salem''),
                  state = Some (str ''OR''), zip_code = Some (str ''97301'')\<rparr>"

definition split_right :: AddressType where
  "split_right = \<lparr>country_id = Some (str ''US''), city = Some (str ''Sale''),
                   state = Some (str ''mOR''), zip_code = Some (str ''97301'')\<rparr>"

definition row_salem :: address_row where
  "row_salem = \<lparr>country_id = Some (str ''US''), city = Some (str ''Salem''),
                 state = Some (str ''OR''), zip_code = Some (str ''97301''),
                 address_key = str ''ussalemor97301''\<rparr>"

definition db_salem :: database where
  "db_salem = \<lparr>address_tbl = [row_salem], user_tbl = [], user_address_link_tbl = []\<rparr>"

section \<open>Letter case\<close>

lemma or_empty_simps [simp]: "or_empty None = []" "or_empty (Some s) = s"
  by (simp_all add: or_empty_def)

lemma is_ascii_append [simp]: "is_ascii (s @ t) \<longleftrightarrow> is_ascii s \<and> is_ascii t"
  by (simp add: is_ascii_def)

lemma same_letter_ascii_lower:
  "c < 128 \<Longrightarrow> d < 128 \<Longrightarrow> same_letter c d \<Longrightarrow> ascii_lower c = ascii_lower d"
  by (auto simp: same_letter_def case_pair_def ascii_lower_def)

lemma case_variant_ascii_lower:
  "case_variant s t \<Longrightarrow> is_ascii s \<Longrightarrow> is_ascii t \<Longrightarrow> map ascii_lower s = map ascii_lower t"
  unfolding case_variant_def is_ascii_def
  by (induction s t rule: list_all2_induct) (simp_all add: same_letter_ascii_lower)

lemma case_variant_append:
  "case_variant s t \<Longrightarrow> case_variant s' t' \<Longrightarrow> case_variant (s @ s') (t @ t')"
  unfolding case_variant_def by (rule list_all2_appendI)

lemma jsval_case_variant_or_empty:
  "jsval_case_variant v w \<Longrightarrow> case_variant (or_empty v) (or_empty w)"
  by (cases v; cases w) (simp_all add: jsval_case_variant_def case_variant_def)

lemma lowers_ascii_case_variant:
  assumes "lowers_ascii lower" and "is_ascii s" and "is_ascii t" and "case_variant s t"
  shows "lower s = lower t"
  using assms by (simp add: lowers_ascii_def case_variant_ascii_lower)

lemma address_case_variant_hashString:
  assumes "lowers_ascii lower" and "address_ascii a" and "address_ascii b"
    and "address_case_variant a b"
  shows "hashString lower a = hashString lower b"
proof -
  let ?A = "or_empty (country_id a) @ or_empty (city a) @ or_empty (state a) @
            or_empty (zip_code a)"
  let ?B = "or_empty (country_id b) @ or_empty (city b) @ or_empty (state b) @
            or_empty (zip_code b)"
  from assms(2,3) have ascii: "is_ascii ?A" "is_ascii ?B"
    by (simp_all add: address_ascii_def)
  from assms(4) have "case_variant ?A ?B"
    by (simp add: address_case_variant_def jsval_case_variant_or_empty case_variant_append)
  with assms(1) ascii have "lower ?A = lower ?B"
    by (rule lowers_ascii_case_variant)
  then show ?thesis
    by (simp add: hashString_def)
qed

lemma lower_units_ascii: "is_ascii s \<Longrightarrow> lower_units p s = map ascii_lower s"
  by (induction s arbitrary: p) (simp_all add: is_ascii_def)

lemma lowers_ascii_sample: "lowers_ascii toLowerCase_sample"
  by (simp add: lowers_ascii_def toLowerCase_sample_def lower_units_ascii)

section \<open>Rows and lookups\<close>

lemma first_row_None [simp]: "first_row xs = None \<longleftrightarrow> xs = []"
  by (cases xs) (simp_all add: first_row_def)

lemma first_row_Some: "first_row xs = Some r \<longleftrightarrow> (\<exists>ys. xs = r # ys)"
  by (cases xs) (auto simp: first_row_def)

lemma first_row_filter_Some:
  assumes "first_row (filter P xs) = Some r"
  shows "r \<in> set xs \<and> P r"
proof -
  from assms obtain ys where "filter P xs = r # ys"
    by (auto simp: first_row_Some)
  then have "r \<in> set (filter P xs)"
    by simp
  then show ?thesis
    by simp
qed

lemma createAddress_again:
  assumes "createAddressHash lower md5 b = createAddressHash lower md5 a"
  shows "createAddress lower md5 (fst (createAddress lower md5 st a)) b = createAddress lower md5 st a"
proof (cases "getAddressById st (createAddressHash lower md5 a)")
  case (Some r)
  then show ?thesis
    using assms by (simp add: createAddress_def)
next
  case None
  then have empty: "filter (\<lambda>r. address_key r = createAddressHash lower md5 a) (address_tbl st) = []"
    by (simp add: getAddressById_def select_address_by_key_def)
  then have fresh: "createAddressHash lower md5 a \<notin> set (map address_key (address_tbl st))"
    by (auto simp: filter_empty_conv)
  show ?thesis
    using None assms empty fresh
    by (simp add: createAddress_def insert_address_def getAddressById_def
        select_address_by_key_def first_row_def)
qed

lemma createAddress_returns_row:
  "\<exists>st1 r. createAddress lower md5 st a = (st1, Some r) \<and> r \<in> set (address_tbl st1) \<and>
     address_key r = createAddressHash lower md5 a"
proof (cases "getAddressById st (createAddressHash lower md5 a)")
  case (Some r)
  then have "r \<in> set (address_tbl st) \<and> address_key r = createAddressHash lower md5 a"
    using first_row_filter_Some [of "\<lambda>r. address_key r = createAddressHash lower md5 a" "address_tbl st" r]
    by (simp add: getAddressById_def select_address_by_key_def)
  with Some show ?thesis
    by (simp add: createAddress_def)
next
  case None
  then have empty: "filter (\<lambda>r. address_key r = createAddressHash lower md5 a) (address_tbl st) = []"
    by (simp add: getAddressById_def select_address_by_key_def)
  then have fresh: "createAddressHash lower md5 a \<notin> set (map address_key (address_tbl st))"
    by (auto simp: filter_empty_conv)
  show ?thesis
    using None fresh
    by (simp add: createAddress_def insert_address_def first_row_def Let_def)
qed

lemma getUserByEmail_None: "getUserByEmail st e = None \<longleftrightarrow> select_user_by_email st e = []"
  by (simp add: getUserByEmail_def)

lemma sql_eq_Some [simp]: "sql_eq v (Some s) \<longleftrightarrow> v = Some s"
  by (cases v) (auto simp: sql_eq_def)

lemma sql_eq_None [simp]: "\<not> sql_eq v None" "\<not> sql_eq None w"
  by (cases v) (auto simp: sql_eq_def)

subsection \<open>The outcomes of createUser\<close>

lemma createUser_existing:
  "email u = Some e \<Longrightarrow> getUserByEmail st (Some e) = Some r \<Longrightarrow>
     createUser lower sha256 st u = (st, Inr r)"
  by (simp add: createUser_def createUserHash_def)

lemma createUser_conflict:
  "email u = Some e \<Longrightarrow> getUserByEmail st (Some e) = None \<Longrightarrow>
   sha256 (lower e) \<in> set (map user_key (user_tbl st)) \<Longrightarrow>
     createUser lower sha256 st u = (st, Inl (Error ''Email already exists''))"
  by (simp add: createUser_def createUserHash_def createHash_def insert_user_def first_row_def)

lemma createUser_insert:
  assumes "email u = Some e" and "getUserByEmail st (Some e) = None"
    and "sha256 (lower e) \<notin> set (map user_key (user_tbl st))"
  shows "createUser lower sha256 st u =
       (st\<lparr>user_tbl := user_tbl st @
            [\<lparr>first_name = first_name u, last_name = last_name u, email = Some e,
              user_key = sha256 (lower e)\<rparr>]\<rparr>,
        Inr \<lparr>first_name = first_name u, last_name = last_name u, email = Some e,
              user_key = sha256 (lower e)\<rparr>)"
proof -
  from assms(2) have "select_user_by_email st (Some e) = []"
    by (simp add: getUserByEmail_def)
  with assms show ?thesis
    by (simp add: createUser_def createUserHash_def createHash_def insert_user_def first_row_def)
qed

lemma createUser_undefined_email:
  "email u = None \<Longrightarrow> createUser lower sha256 st u = (st, Inl TypeError)"
  by (simp add: createUser_def createUserHash_def)

lemma getUserByEmail_append_new:
  assumes "getUserByEmail st (Some e) = None" and "email r = Some e"
  shows "getUserByEmail (st\<lparr>user_tbl := user_tbl st @ [r]\<rparr>) (Some e) = Some r"
proof -
  from assms(1) have "filter (\<lambda>r. email r = Some e) (user_tbl st) = []"
    by (simp add: getUserByEmail_def select_user_by_email_def)
  with assms(2) show ?thesis
    by (simp add: getUserByEmail_def select_user_by_email_def first_row_def)
qed

subsection \<open>deleteUserAddressByEmail, updateUser and getUserByKey\<close>

lemma falsy_simps [simp]: "falsy None" "falsy (Some s) \<longleftrightarrow> s = []"
  by (simp_all add: falsy_def)

lemma delete_not_found:
  "select_user_by_email st e = [] \<Longrightarrow> deleteUserAddressByEmail st e = (st, ''User not found'')"
  by (simp add: deleteUserAddressByEmail_def select_user_key_def first_row_def)

lemma delete_found:
  assumes "select_user_key st e = Some k" and "k \<noteq> []"
  shows "deleteUserAddressByEmail st e =
     (delete_user (delete_orphaned_addresses (delete_links st k)) k,
      ''User and associated address data deleted successfully'')"
  using assms by (simp add: deleteUserAddressByEmail_def)

lemma unique_email_same_row:
  assumes "unique_email st" and "x \<in> set (user_tbl st)" and "y \<in> set (user_tbl st)"
    and "email x = Some e" and "email y = Some e"
  shows "x = y"
proof -
  let ?xs = "filter (\<lambda>r. email r \<noteq> None) (user_tbl st)"
  have "filter (\<lambda>v. v \<noteq> None) (map email (user_tbl st)) = map email ?xs"
    by (simp add: filter_map comp_def)
  with assms(1) have "inj_on email (set ?xs)"
    by (simp add: unique_email_def distinct_map)
  moreover from assms have "x \<in> set ?xs" "y \<in> set ?xs" "email x = email y"
    by simp_all
  ultimately show ?thesis
    by (blast dest: inj_onD)
qed

lemma delete_twice:
  assumes "unique_email st"
  shows "deleteUserAddressByEmail (fst (deleteUserAddressByEmail st e)) e =
           (fst (deleteUserAddressByEmail st e), ''User not found'')"
proof (cases "select_user_key st e")
  case None
  then have "select_user_by_email st e = []"
    by (simp add: select_user_key_def split: option.splits)
  then show ?thesis
    by (simp add: delete_not_found)
next
  case (Some k)
  show ?thesis
  proof (cases "k = []")
    case True
    with Some have "deleteUserAddressByEmail st e = (st, ''User not found'')"
      by (simp add: deleteUserAddressByEmail_def)
    then show ?thesis
      by simp
  next
    case False
    let ?st' = "delete_user (delete_orphaned_addresses (delete_links st k)) k"
    from Some obtain r0 where r0: "first_row (select_user_by_email st e) = Some r0" "user_key r0 = k"
      by (auto simp: select_user_key_def split: option.splits)
    then have in0: "r0 \<in> set (user_tbl st) \<and> sql_eq (email r0) e"
      using first_row_filter_Some [of "\<lambda>r. sql_eq (email r) e" "user_tbl st" r0]
      by (simp add: select_user_by_email_def)
    then obtain s where s: "e = Some s" "email r0 = Some s"
      by (cases e) auto
    have "select_user_by_email ?st' e = []"
    proof (rule ccontr)
      assume "select_user_by_email ?st' e \<noteq> []"
      then obtain y where "y \<in> set (select_user_by_email ?st' e)"
        by (cases "select_user_by_email ?st' e") auto
      then have y: "y \<in> set (user_tbl st)" "user_key y \<noteq> k" "email y = Some s"
        using s by (auto simp: select_user_by_email_def delete_user_def
            delete_orphaned_addresses_def delete_links_def)
      with assms in0 s have "r0 = y"
        by (auto intro: unique_email_same_row)
      with r0 y show False
        by simp
    qed
    then have "deleteUserAddressByEmail ?st' e = (?st', ''User not found'')"
      by (rule delete_not_found)
    with Some False show ?thesis
      by (simp add: delete_found)
  qed
qed

lemma cascade_tables:
  "user_address_link_tbl (delete_user (delete_orphaned_addresses (delete_links st k)) k) =
     filter (\<lambda>l. link_user_key l \<noteq> k) (user_address_link_tbl st)"
  "address_tbl (delete_user (delete_orphaned_addresses (delete_links st k)) k) =
     filter (\<lambda>a. \<exists>l\<in>set (user_address_link_tbl st).
                   link_user_key l \<noteq> k \<and> link_address_key l = address_key a)
       (address_tbl st)"
  "user_tbl (delete_user (delete_orphaned_addresses (delete_links st k)) k) =
     filter (\<lambda>u. user_key u \<noteq> k) (user_tbl st)"
proof -
  have "address_key a \<in> link_address_key ` {l \<in> set (user_address_link_tbl st). link_user_key l \<noteq> k}
          \<longleftrightarrow> (\<exists>l\<in>set (user_address_link_tbl st).
                   link_user_key l \<noteq> k \<and> link_address_key l = address_key a)" for a :: address_row
    by force
  then show
    "address_tbl (delete_user (delete_orphaned_addresses (delete_links st k)) k) =
       filter (\<lambda>a. \<exists>l\<in>set (user_address_link_tbl st).
                     link_user_key l \<noteq> k \<and> link_address_key l = address_key a)
         (address_tbl st)"
    by (simp add: delete_user_def delete_orphaned_addresses_def delete_links_def)
qed (simp_all add: delete_user_def delete_orphaned_addresses_def delete_links_def)

text \<open>
  No choice of columns makes the statement of \<^verbatim>\<open>getUserByKey\<close> valid while \<^verbatim>\<open>user_tbl\<close>
  has the column \<^verbatim>\<open>user_key\<close> that every other statement uses: if
  \<^verbatim>\<open>address_tbl.user_key\<close> resolves, the unqualified \<^verbatim>\<open>user_key\<close> of the WHERE clause
  is ambiguous.
\<close>

lemma join_never_resolves:
  assumes "''user_key'' \<in> set user_cols"
    and "resolve_column [(''user_tbl'', user_cols), (''address_tbl'', address_cols)]
           (Qualified ''address_tbl'' ''user_key'') = Inr tc"
  shows "resolve_column [(''user_tbl'', user_cols), (''address_tbl'', address_cols)]
           (Unqualified ''user_key'') = Inl (DatabaseError ''column reference user_key is ambiguous'')"
  using assms by (simp split: if_splits)

lemma insert_user_no_row:
  "(\<exists>st'. insert_user st r = Inr (st', [])) \<longleftrightarrow> user_key r \<in> set (map user_key (user_tbl st))"
  by (auto simp: insert_user_def)

subsection \<open>The uniqueness of emails is kept\<close>

lemma unique_email_append:
  assumes "unique_email st" and "select_user_by_email st (email r) = []"
  shows "unique_email (st\<lparr>user_tbl := user_tbl st @ [r]\<rparr>)"
proof (cases "email r")
  case None
  with assms(1) show ?thesis
    by (simp add: unique_email_def)
next
  case (Some e)
  with assms(2) have "\<forall>x\<in>set (user_tbl st). email x \<noteq> Some e"
    by (simp add: select_user_by_email_def filter_empty_conv)
  then have "Some e \<notin> set (map email (user_tbl st))"
    by auto
  with assms(1) Some show ?thesis
    by (simp add: unique_email_def)
qed

lemma createUser_unique_email:
  assumes "unique_email st"
  shows "unique_email (fst (createUser lower sha256 st u))"
proof (cases "email u")
  case None
  with assms show ?thesis
    by (simp add: createUser_undefined_email)
next
  case (Some e)
  show ?thesis
  proof (cases "getUserByEmail st (Some e)")
    case (Some x)
    with \<open>email u = Some e\<close> assms show ?thesis
      by (simp add: createUser_existing)
  next
    case None
    show ?thesis
    proof (cases "sha256 (lower e) \<in> set (map user_key (user_tbl st))")
      case True
      with \<open>email u = Some e\<close> None assms show ?thesis
        by (simp add: createUser_conflict)
    next
      case False
      from None have "select_user_by_email st (Some e) = []"
        by (simp add: getUserByEmail_def)
      with assms have "unique_email (st\<lparr>user_tbl := user_tbl st @
            [\<lparr>first_name = first_name u, last_name = last_name u, email = Some e,
              user_key = sha256 (lower e)\<rparr>]\<rparr>)"
        by (intro unique_email_append) simp_all
      with \<open>email u = Some e\<close> None False show ?thesis
        by (simp add: createUser_insert)
    qed
  qed
qed

lemma update_names_emails:
  "map email (user_tbl (update_names st e f l)) = map email (user_tbl st)"
  by (simp add: update_names_def comp_def if_distrib [of email] cong: if_cong)

lemma updateUser_unique_email:
  assumes "unique_email st"
  shows "unique_email (fst (updateUser st e f l))"
  using assms by (simp add: updateUser_def unique_email_def update_names_emails)

lemma distinct_non_null_filter:
  "distinct (filter (\<lambda>v. v \<noteq> None) (map f xs)) \<Longrightarrow>
     distinct (filter (\<lambda>v. v \<noteq> None) (map f (filter P xs)))"
  by (induction xs) force+

lemma deleteUserAddressByEmail_unique_email:
  assumes "unique_email st"
  shows "unique_email (fst (deleteUserAddressByEmail st e))"
proof -
  have "unique_email (delete_user (delete_orphaned_addresses (delete_links st k)) k)" for k
    using assms unfolding unique_email_def cascade_tables(3)
    by (rule distinct_non_null_filter)
  with assms show ?thesis
    by (simp add: deleteUserAddressByEmail_def Let_def split: option.splits)
qed

section \<open>The claims\<close>




text \<open>
  As stated, C2 holds of any two inputs that differ only by letter case. It fails for the
  Greek word in capitals and in small letters, for both hash functions: the lower case of
  the capitals ends in the final sigma, the small letters keep the sigma.
\<close>

theorem hash_greek_counterexample:
  "case_variant odos_capital odos_small \<and>
   createUserHash toLowerCase_sample id (Some odos_capital) = Inr odos_final \<and>
   createUserHash toLowerCase_sample id (Some odos_small) = Inr odos_small \<and>
   odos_final \<noteq> odos_small \<and>
   address_case_variant addr_odos_capital addr_odos_small \<and>
   createAddressHash toLowerCase_sample id addr_odos_capital \<noteq>
     createAddressHash toLowerCase_sample id addr_odos_small"
proof -
  have "case_variant odos_capital odos_small"
    by code_simp
  moreover have "createUserHash toLowerCase_sample id (Some odos_capital) = Inr odos_final"
    by code_simp
  moreover have "createUserHash toLowerCase_sample id (Some odos_small) = Inr odos_small"
    by code_simp
  moreover have "odos_final \<noteq> odos_small"
    by (simp add: odos_final_def odos_small_def)
  moreover have "address_case_variant addr_odos_capital addr_odos_small"
    by code_simp
  moreover have "createAddressHash toLowerCase_sample id addr_odos_capital \<noteq>
      createAddressHash toLowerCase_sample id addr_odos_small"
    by code_simp
  ultimately show ?thesis
    by simp
qed

text \<open>
  C2, amended to ASCII text. Both hash functions are case-insensitive on ASCII text:
  address field sets of ASCII text that differ only by letter case get the same key from
  \<open>createAddressHash\<close>, and ASCII emails that differ only by letter case get the same
  key from \<open>createUserHash\<close>. Both are functions of their arguments alone (the
  lower-casing, the digest and the fields), hence pure and deterministic.
\<close>

theorem hash_case_insensitive_ascii:
  assumes "lowers_ascii lower"
  shows "(address_ascii a \<and> address_ascii b \<and> address_case_variant a b \<longrightarrow>
            createAddressHash lower md5 a = createAddressHash lower md5 b) \<and>
         (is_ascii e1 \<and> is_ascii e2 \<and> case_variant e1 e2 \<longrightarrow>
            (\<exists>k. createUserHash lower sha256 (Some e1) = Inr k \<and>
                 createUserHash lower sha256 (Some e2) = Inr k))"
proof -
  have "createAddressHash lower md5 a = createAddressHash lower md5 b"
    if "address_ascii a" "address_ascii b" "address_case_variant a b"
    using assms that by (simp add: createAddressHash_def address_case_variant_hashString)
  moreover have "lower e1 = lower e2" if "is_ascii e1" "is_ascii e2" "case_variant e1 e2"
    using assms that by (rule lowers_ascii_case_variant)
  ultimately show ?thesis
    by (simp add: createUserHash_def)
qed

theorem hash_case_insensitive_ascii_witness:
  "lowers_ascii toLowerCase_sample \<and>
   address_ascii addr_upper \<and> address_ascii addr_lower \<and>
   address_case_variant addr_upper addr_lower \<and>
   createAddressHash toLowerCase_sample id addr_upper = str ''usnew yorkny10001'' \<and>
   createAddressHash toLowerCase_sample id addr_lower = str ''usnew yorkny10001'' \<and>
   is_ascii (str ''John.Doe@Example.COM'') \<and> is_ascii (str ''john.doe@example.com'') \<and>
   case_variant (str ''John.Doe@Example.COM'') (str ''john.doe@example.com'') \<and>
   createUserHash toLowerCase_sample id (Some (str ''John.Doe@Example.COM'')) =
     Inr (str ''john.doe@example.com'') \<and>
   createUserHash toLowerCase_sample id (Some (str ''john.doe@example.com'')) =
     Inr (str ''john.doe@example.com'')"
proof -
  have ascii: "address_ascii addr_upper" "address_ascii addr_lower"
    by code_simp+
  have variant: "address_case_variant addr_upper addr_lower"
    by code_simp
  have lower: "createAddressHash toLowerCase_sample id addr_lower = str ''usnew yorkny10001''"
    by code_simp
  have mail_ascii: "is_ascii (str ''John.Doe@Example.COM'')" "is_ascii (str ''john.doe@example.com'')"
    by code_simp+
  have mail: "case_variant (str ''John.Doe@Example.COM'') (str ''john.doe@example.com'')"
    by code_simp
  have lower_mail: "createUserHash toLowerCase_sample id (Some (str ''john.doe@example.com'')) =
      Inr (str ''john.doe@example.com'')"
    by code_simp
  from hash_case_insensitive_ascii [OF lowers_ascii_sample,
      where a = addr_upper and b = addr_lower and ?md5.0 = id and ?sha256.0 = id
        and ?e1.0 = "str ''John.Doe@Example.COM''" and ?e2.0 = "str ''john.doe@example.com''"]
    ascii variant mail_ascii mail lower lower_mail
  have "createAddressHash toLowerCase_sample id addr_upper = str ''usnew yorkny10001''"
    and "createUserHash toLowerCase_sample id (Some (str ''John.Doe@Example.COM'')) =
      Inr (str ''john.doe@example.com'')"
    by auto
  with lowers_ascii_sample ascii variant lower mail_ascii mail lower_mail show ?thesis
    by simp
qed

text \<open>
  As stated, C3 has the second of two \<open>createUser\<close> calls with one email fail with the
  duplicate-email error. It does not: on the empty tables the first call inserts the user,
  and the second finds the row by its email and returns it.
\<close>

theorem createUser_second_call_counterexample:
  "createUser toLowerCase_sample id empty_db user_john = (db_john, Inr row_john) \<and>
   createUser toLowerCase_sample id db_john user_john = (db_john, Inr row_john) \<and>
   snd (createUser toLowerCase_sample id db_john user_john) \<noteq>
     Inl (Error ''Email already exists'')"
proof -
  have "createUser toLowerCase_sample id empty_db user_john = (db_john, Inr row_john)"
    by code_simp
  moreover have "createUser toLowerCase_sample id db_john user_john = (db_john, Inr row_john)"
    by code_simp
  ultimately show ?thesis
    by simp
qed

text \<open>
  C3, amended. Two sequential \<open>createUser\<close> calls with the same email: the first succeeds
  whenever every stored row with the key of the email holds this very email, and whenever
  the first succeeds, the second succeeds too, returns the same stored user (whatever names
  it was given) and leaves the tables as the first call left them.
\<close>

theorem createUser_twice:
  assumes "email u = Some e" and "email u' = Some e"
  shows "((\<forall>r\<in>set (user_tbl st). user_key r = sha256 (lower e) \<longrightarrow> email r = Some e) \<longrightarrow>
            (\<exists>r. snd (createUser lower sha256 st u) = Inr r)) \<and>
         (snd (createUser lower sha256 st u) = Inr r \<longrightarrow>
            createUser lower sha256 (fst (createUser lower sha256 st u)) u' =
              (fst (createUser lower sha256 st u), Inr r))"
proof (cases "getUserByEmail st (Some e)")
  case (Some x)
  with assms show ?thesis
    by (simp add: createUser_existing)
next
  case None
  show ?thesis
  proof (cases "sha256 (lower e) \<in> set (map user_key (user_tbl st))")
    case True
    then obtain x where x: "x \<in> set (user_tbl st)" "user_key x = sha256 (lower e)"
      by auto
    from None have "filter (\<lambda>r. email r = Some e) (user_tbl st) = []"
      by (simp add: getUserByEmail_def select_user_by_email_def)
    with x have "email x \<noteq> Some e"
      by (auto simp: filter_empty_conv)
    with x have "\<not> (\<forall>r\<in>set (user_tbl st). user_key r = sha256 (lower e) \<longrightarrow> email r = Some e)"
      by blast
    with assms None True show ?thesis
      by (simp add: createUser_conflict)
  next
    case False
    let ?new = "\<lparr>first_name = first_name u, last_name = last_name u, email = Some e,
              user_key = sha256 (lower e)\<rparr>"
    have first: "createUser lower sha256 st u = (st\<lparr>user_tbl := user_tbl st @ [?new]\<rparr>, Inr ?new)"
      using assms(1) None False by (rule createUser_insert)
    have "getUserByEmail (st\<lparr>user_tbl := user_tbl st @ [?new]\<rparr>) (Some e) = Some ?new"
      using None by (rule getUserByEmail_append_new) simp
    with assms(2) have "createUser lower sha256 (st\<lparr>user_tbl := user_tbl st @ [?new]\<rparr>) u' =
        (st\<lparr>user_tbl := user_tbl st @ [?new]\<rparr>, Inr ?new)"
      by (rule createUser_existing)
    with first show ?thesis
      by auto
  qed
qed

theorem createUser_twice_witness:
  "email user_john = Some (str ''john.doe@example.com'') \<and>
   email user_johnny = Some (str ''john.doe@example.com'') \<and>
   createUser toLowerCase_sample id db_jane user_john = (db_jane_john, Inr row_john) \<and>
   createUser toLowerCase_sample id db_jane_john user_johnny = (db_jane_john, Inr row_john)"
proof -
  have mail: "email user_john = Some (str ''john.doe@example.com'')"
    "email user_johnny = Some (str ''john.doe@example.com'')"
    by (simp_all add: user_john_def user_johnny_def)
  have first: "createUser toLowerCase_sample id db_jane user_john = (db_jane_john, Inr row_john)"
    by code_simp
  from createUser_twice [OF mail, where lower = toLowerCase_sample and ?sha256.0 = id and ?st = db_jane and ?r = row_john] first
  have "createUser toLowerCase_sample id db_jane_john user_johnny = (db_jane_john, Inr row_john)"
    by simp
  with mail first show ?thesis
    by simp
qed

text \<open>
  C4. For a string email, \<open>createUser\<close> first looks the email up and returns the existing
  user, tables unchanged, when there is one. It fails with the duplicate-email error exactly
  when the lookup finds no user and the insert is suppressed by the conflict on the key
  (the statement returns no row); the tables are then unchanged. In every case the result
  is that error or a user row, never an empty result.
\<close>

theorem createUser_lookup_then_insert:
  assumes "email u = Some e"
  shows "(getUserByEmail st (Some e) = Some r \<longrightarrow> createUser lower sha256 st u = (st, Inr r)) \<and>
         (snd (createUser lower sha256 st u) = Inl (Error ''Email already exists'') \<longleftrightarrow>
            getUserByEmail st (Some e) = None \<and>
            (\<exists>st'. insert_user st
                     \<lparr>first_name = first_name u, last_name = last_name u, email = Some e,
                      user_key = sha256 (lower e)\<rparr> = Inr (st', []))) \<and>
         (snd (createUser lower sha256 st u) = Inl (Error ''Email already exists'') \<longrightarrow>
            fst (createUser lower sha256 st u) = st) \<and>
         (\<exists>x. snd (createUser lower sha256 st u) = Inl (Error ''Email already exists'') \<or>
              snd (createUser lower sha256 st u) = Inr x)"
proof (cases "getUserByEmail st (Some e)")
  case (Some x)
  with assms show ?thesis
    by (simp add: createUser_existing)
next
  case None
  show ?thesis
  proof (cases "sha256 (lower e) \<in> set (map user_key (user_tbl st))")
    case True
    with assms None show ?thesis
      by (simp add: createUser_conflict insert_user_no_row)
  next
    case False
    with assms None show ?thesis
      by (simp add: createUser_insert insert_user_no_row)
  qed
qed

text \<open>
  The lookup by email is exact, so a stored user is found under its own spelling and
  missed under another letter case, where the insert then conflicts on the key.
\<close>

theorem createUser_lookup_then_insert_witness:
  "email user_johnny = Some (str ''john.doe@example.com'') \<and>
   getUserByEmail db_john (Some (str ''john.doe@example.com'')) = Some row_john \<and>
   createUser toLowerCase_sample id db_john user_johnny = (db_john, Inr row_john) \<and>
   email user_john_caps = Some (str ''John.Doe@Example.com'') \<and>
   getUserByEmail db_john (Some (str ''John.Doe@Example.com'')) = None \<and>
   createUser toLowerCase_sample id db_john user_john_caps = (db_john, Inl (Error ''Email already exists''))"
proof -
  have mail: "email user_johnny = Some (str ''john.doe@example.com'')"
    and caps: "email user_john_caps = Some (str ''John.Doe@Example.com'')"
    by (simp_all add: user_johnny_def user_john_caps_def)
  have found: "getUserByEmail db_john (Some (str ''john.doe@example.com'')) = Some row_john"
    by code_simp
  have missed: "getUserByEmail db_john (Some (str ''John.Doe@Example.com'')) = None"
    by code_simp
  have suppressed: "insert_user db_john
      \<lparr>first_name = first_name user_john_caps, last_name = last_name user_john_caps,
       email = Some (str ''John.Doe@Example.com''),
       user_key = id (toLowerCase_sample (str ''John.Doe@Example.com''))\<rparr> = Inr (db_john, [])"
    by code_simp
  from createUser_lookup_then_insert [OF mail, where lower = toLowerCase_sample and ?sha256.0 = id and ?st = db_john and ?r = row_john] found
  have existing: "createUser toLowerCase_sample id db_john user_johnny = (db_john, Inr row_john)"
    by simp
  from createUser_lookup_then_insert [OF caps, where lower = toLowerCase_sample and ?sha256.0 = id and ?st = db_john and ?r = row_john] missed suppressed
  have "snd (createUser toLowerCase_sample id db_john user_john_caps) = Inl (Error ''Email already exists'')"
    and "fst (createUser toLowerCase_sample id db_john user_john_caps) = db_john"
    by blast+
  then have conflict: "createUser toLowerCase_sample id db_john user_john_caps = (db_john, Inl (Error ''Email already exists''))"
    by (simp add: prod_eq_iff)
  from mail caps found missed existing conflict show ?thesis
    by simp
qed

text \<open>
  C5. When the lookup by email gives a non-empty key, \<open>deleteUserAddressByEmail\<close>
  deletes the links of that key, then every address whose key is in no link row (of the
  whole table), then the user row. So the links left are those of the other users, the
  addresses left are those some other user still links, and the users left are the others:
  an address that only this user linked (or nobody linked) is removed, an address that
  another user links survives.
\<close>

theorem deleteUserAddressByEmail_cascade:
  assumes "select_user_key st e = Some k" and "k \<noteq> []"
  shows "deleteUserAddressByEmail st e =
           (delete_user (delete_orphaned_addresses (delete_links st k)) k,
            ''User and associated address data deleted successfully'') \<and>
         (let st' = fst (deleteUserAddressByEmail st e) in
            user_address_link_tbl st' =
              filter (\<lambda>l. link_user_key l \<noteq> k) (user_address_link_tbl st) \<and>
            address_tbl st' =
              filter (\<lambda>a. \<exists>l\<in>set (user_address_link_tbl st).
                            link_user_key l \<noteq> k \<and> link_address_key l = address_key a)
                (address_tbl st) \<and>
            user_tbl st' = filter (\<lambda>u. user_key u \<noteq> k) (user_tbl st) \<and>
            (\<forall>a\<in>set (address_tbl st).
               (\<forall>l\<in>set (user_address_link_tbl st).
                  link_address_key l = address_key a \<longrightarrow> link_user_key l = k) \<longrightarrow>
               a \<notin> set (address_tbl st')) \<and>
            (\<forall>a\<in>set (address_tbl st).
               (\<exists>l\<in>set (user_address_link_tbl st).
                  link_address_key l = address_key a \<and> link_user_key l \<noteq> k) \<longrightarrow>
               a \<in> set (address_tbl st')))"
proof -
  let ?st' = "delete_user (delete_orphaned_addresses (delete_links st k)) k"
  have run: "deleteUserAddressByEmail st e =
      (?st', ''User and associated address data deleted successfully'')"
    using assms by (rule delete_found)
  have sole: "\<forall>a\<in>set (address_tbl st).
      (\<forall>l\<in>set (user_address_link_tbl st).
         link_address_key l = address_key a \<longrightarrow> link_user_key l = k) \<longrightarrow>
      a \<notin> set (address_tbl ?st')"
    by (auto simp: cascade_tables(2))
  have shared: "\<forall>a\<in>set (address_tbl st).
      (\<exists>l\<in>set (user_address_link_tbl st).
         link_address_key l = address_key a \<and> link_user_key l \<noteq> k) \<longrightarrow>
      a \<in> set (address_tbl ?st')"
    by (auto simp: cascade_tables(2))
  show ?thesis
    unfolding run Let_def fst_conv
    using sole shared cascade_tables [of st k] by simp
qed

text \<open>
  Ann and Bob share one address, Ann alone has a second, and a third has no link:
  deleting Ann removes her links, her own address and the unlinked one, and keeps the
  shared address and Bob.
\<close>

theorem deleteUserAddressByEmail_cascade_witness:
  "select_user_key db_linked (Some (str ''ann@example.com'')) = Some (str ''k-ann'') \<and>
   deleteUserAddressByEmail db_linked (Some (str ''ann@example.com'')) =
     (db_after_ann, ''User and associated address data deleted successfully'') \<and>
   addr_sole \<in> set (address_tbl db_linked) \<and>
   addr_sole \<notin> set (address_tbl db_after_ann) \<and>
   addr_shared \<in> set (address_tbl db_after_ann) \<and>
   addr_unlinked \<notin> set (address_tbl db_after_ann)"
proof -
  have key: "select_user_key db_linked (Some (str ''ann@example.com'')) = Some (str ''k-ann'')"
    by code_simp
  have nonempty: "str ''k-ann'' \<noteq> []"
    by (simp add: str_def)
  have steps: "delete_user (delete_orphaned_addresses (delete_links db_linked (str ''k-ann''))) (str ''k-ann'')
      = db_after_ann"
    by code_simp
  have rows: "addr_sole \<in> set (address_tbl db_linked)"
    "addr_sole \<notin> set (address_tbl db_after_ann)"
    "addr_shared \<in> set (address_tbl db_after_ann)"
    "addr_unlinked \<notin> set (address_tbl db_after_ann)"
    by (simp_all add: db_linked_def db_after_ann_def addr_sole_def addr_shared_def
        addr_unlinked_def str_def)
  from deleteUserAddressByEmail_cascade [OF key nonempty] steps
  have "deleteUserAddressByEmail db_linked (Some (str ''ann@example.com'')) =
     (db_after_ann, ''User and associated address data deleted successfully'')"
    by simp
  with key rows show ?thesis
    by simp
qed

text \<open>
  As stated, C6 has \<open>createUserHash\<close> of a missing email not raise. It raises: the
  function calls \<^verbatim>\<open>toLowerCase\<close> on its argument, with no \<^verbatim>\<open>|| ''\<close> before it.
\<close>

theorem createUserHash_undefined_counterexample:
  "createUserHash toLowerCase_sample id None = Inl TypeError"
  by (simp add: createUserHash_def)

text \<open>
  C6, amended. \<open>createAddressHash\<close> is total: a missing field counts as the empty
  string, so a field set and the same field set with every missing field replaced by the
  empty string get the same key, and the field set with no field at all gets the digest of
  the lower case of the empty string. \<open>createUserHash\<close> returns a key for every string
  email, the type of its parameter.
\<close>

theorem hashes_total_on_their_types:
  "createAddressHash lower md5 a =
     createAddressHash lower md5
       (a\<lparr>country_id := Some (or_empty (country_id a)), city := Some (or_empty (city a)),
          state := Some (or_empty (state a)), zip_code := Some (or_empty (zip_code a))\<rparr>) \<and>
   createAddressHash lower md5
     \<lparr>country_id = None, city = None, state = None, zip_code = None\<rparr> = md5 (lower []) \<and>
   createUserHash lower sha256 (Some e) = Inr (sha256 (lower e))"
  by (simp add: createAddressHash_def hashString_def createUserHash_def createHash_def)

text \<open>
  C7. When no stored user has the email, \<open>deleteUserAddressByEmail\<close> returns the message
  \<^verbatim>\<open>User not found\<close>, raises nothing and leaves the tables unchanged. Where emails are
  unique in \<^verbatim>\<open>user_tbl\<close>, a second call for the same email, after the first, returns
  that message and changes nothing.
\<close>

theorem deleteUserAddressByEmail_not_found:
  "(select_user_by_email st e = [] \<longrightarrow>
      deleteUserAddressByEmail st e = (st, ''User not found'')) \<and>
   (unique_email st \<longrightarrow>
      deleteUserAddressByEmail (fst (deleteUserAddressByEmail st e)) e =
        (fst (deleteUserAddressByEmail st e), ''User not found''))"
  by (simp add: delete_not_found delete_twice)

theorem deleteUserAddressByEmail_not_found_witness:
  "select_user_by_email db_linked (Some (str ''zoe@example.com'')) = [] \<and>
   deleteUserAddressByEmail db_linked (Some (str ''zoe@example.com'')) = (db_linked, ''User not found'') \<and>
   unique_email db_linked \<and>
   deleteUserAddressByEmail db_linked (Some (str ''ann@example.com'')) =
     (db_after_ann, ''User and associated address data deleted successfully'') \<and>
   deleteUserAddressByEmail db_after_ann (Some (str ''ann@example.com'')) =
     (db_after_ann, ''User not found'')"
proof -
  have absent: "select_user_by_email db_linked (Some (str ''zoe@example.com'')) = []"
    by code_simp
  have unique: "unique_email db_linked"
    by code_simp
  have first: "deleteUserAddressByEmail db_linked (Some (str ''ann@example.com'')) =
     (db_after_ann, ''User and associated address data deleted successfully'')"
    by code_simp
  from deleteUserAddressByEmail_not_found [of db_linked "Some (str ''zoe@example.com'')"] absent
  have none: "deleteUserAddressByEmail db_linked (Some (str ''zoe@example.com'')) =
      (db_linked, ''User not found'')"
    by simp
  from deleteUserAddressByEmail_not_found [of db_linked "Some (str ''ann@example.com'')"] unique first
  have "deleteUserAddressByEmail db_after_ann (Some (str ''ann@example.com'')) =
     (db_after_ann, ''User not found'')"
    by simp
  with absent unique first none show ?thesis
    by simp
qed

text \<open>
  C8. \<open>updateUser\<close> fails with \<^verbatim>\<open>Missing required fields\<close> when any of the email, the
  first name or the last name is missing or empty, fails with \<^verbatim>\<open>User not found\<close> when
  all three are non-empty and no stored user has the email, and succeeds exactly when all
  three are non-empty and a stored user has the email.
\<close>

theorem updateUser_outcomes:
  "(falsy e \<or> falsy f \<or> falsy l \<longrightarrow>
      updateUser st e f l = (st, Inl (Error ''Missing required fields''))) \<and>
   (\<not> falsy e \<and> \<not> falsy f \<and> \<not> falsy l \<and> getUserByEmail st e = None \<longrightarrow>
      updateUser st e f l = (st, Inl (Error ''User not found''))) \<and>
   ((\<exists>r. snd (updateUser st e f l) = Inr r) \<longleftrightarrow>
      \<not> falsy e \<and> \<not> falsy f \<and> \<not> falsy l \<and> getUserByEmail st e \<noteq> None)"
  by (auto simp: updateUser_def getUserByEmail_def)

theorem updateUser_outcomes_witness:
  "falsy (Some []) \<and>
   updateUser db_john (Some (str ''a@b.com'')) (Some []) (Some (str ''Doe'')) =
     (db_john, Inl (Error ''Missing required fields'')) \<and>
   updateUser db_john (Some (str ''a@b.com'')) None (Some (str ''Doe'')) =
     (db_john, Inl (Error ''Missing required fields'')) \<and>
   getUserByEmail db_john (Some (str ''missing@b.com'')) = None \<and>
   updateUser db_john (Some (str ''missing@b.com'')) (Some (str ''A'')) (Some (str ''B'')) =
     (db_john, Inl (Error ''User not found'')) \<and>
   getUserByEmail db_john (Some (str ''john.doe@example.com'')) = Some row_john \<and>
   (\<exists>r. snd (updateUser db_john (Some (str ''john.doe@example.com'')) (Some (str ''A'')) (Some (str ''B''))) = Inr r)"
proof -
  have missing: "getUserByEmail db_john (Some (str ''missing@b.com'')) = None"
    by code_simp
  have found: "getUserByEmail db_john (Some (str ''john.doe@example.com'')) = Some row_john"
    by code_simp
  from updateUser_outcomes [of "Some (str ''a@b.com'')" "Some []" "Some (str ''Doe'')" db_john]
  have empty: "updateUser db_john (Some (str ''a@b.com'')) (Some []) (Some (str ''Doe'')) =
     (db_john, Inl (Error ''Missing required fields''))"
    by (simp add: str_def)
  from updateUser_outcomes [of "Some (str ''a@b.com'')" None "Some (str ''Doe'')" db_john]
  have undef: "updateUser db_john (Some (str ''a@b.com'')) None (Some (str ''Doe'')) =
     (db_john, Inl (Error ''Missing required fields''))"
    by (simp add: str_def)
  from updateUser_outcomes [of "Some (str ''missing@b.com'')" "Some (str ''A'')" "Some (str ''B'')" db_john] missing
  have not_found: "updateUser db_john (Some (str ''missing@b.com'')) (Some (str ''A'')) (Some (str ''B'')) =
     (db_john, Inl (Error ''User not found''))"
    by (simp add: str_def)
  from updateUser_outcomes [of "Some (str ''john.doe@example.com'')" "Some (str ''A'')" "Some (str ''B'')" db_john] found
  have "\<exists>r. snd (updateUser db_john (Some (str ''john.doe@example.com'')) (Some (str ''A'')) (Some (str ''B''))) = Inr r"
    by (simp add: str_def)
  with missing found empty undef not_found show ?thesis
    by (simp add: str_def)
qed

text \<open>
  C9. \<open>getUserByKey\<close> should return the stored user with the key, or nothing. Its
  statement names the column \<^verbatim>\<open>user_tbl.use_key\<close>, which \<^verbatim>\<open>user_tbl\<close> does not have:
  the database rejects the statement for every key and every content of the tables.
\<close>

theorem getUserByKey_rejected:
  "getUserByKey st userKey = Inl (DatabaseError ''column user_tbl.use_key does not exist'')"
  by (simp add: getUserByKey_def getUserByKey_tables_def user_tbl_columns_def)

text \<open>
  C10. The four fields are concatenated with no separator before they are lower-cased, so
  two field sets that differ after normalisation (the same characters, split differently
  between \<^verbatim>\<open>city\<close> and \<^verbatim>\<open>state\<close>) get the same key, for every digest. \<open>createAddress\<close>
  then resolves both to one stored row: from any state of the tables, the call for the
  first returns a row that is stored under that key, and the call for the second, after
  it, returns that same row and writes nothing.
\<close>

theorem unseparated_fields_collide:
  assumes "lowers_ascii lower"
  shows "normalized_fields lower split_left \<noteq> normalized_fields lower split_right \<and>
         createAddressHash lower md5 split_left = createAddressHash lower md5 split_right \<and>
         (\<exists>st1 r. createAddress lower md5 st split_left = (st1, Some r) \<and>
            createAddress lower md5 st1 split_right = (st1, Some r) \<and>
            r \<in> set (address_tbl st1) \<and>
            address_key r = createAddressHash lower md5 split_left)"
proof -
  have "is_ascii (str ''Salem'')" and "is_ascii (str ''Sale'')"
    by code_simp+
  with assms have "lower (str ''Salem'') = map ascii_lower (str ''Salem'')"
    and "lower (str ''Sale'') = map ascii_lower (str ''Sale'')"
    by (simp_all add: lowers_ascii_def)
  moreover have "map ascii_lower (str ''Salem'') \<noteq> map ascii_lower (str ''Sale'')"
    by (simp add: str_def)
  ultimately have differ: "normalized_fields lower split_left \<noteq> normalized_fields lower split_right"
    by (simp add: normalized_fields_def split_left_def split_right_def)
  have "or_empty (country_id split_left) @ or_empty (city split_left) @
        or_empty (state split_left) @ or_empty (zip_code split_left) =
        or_empty (country_id split_right) @ or_empty (city split_right) @
        or_empty (state split_right) @ or_empty (zip_code split_right)"
    by code_simp
  then have same: "createAddressHash lower md5 split_right = createAddressHash lower md5 split_left"
    by (simp add: createAddressHash_def hashString_def)
  obtain st1 r where first: "createAddress lower md5 st split_left = (st1, Some r)"
    and stored: "r \<in> set (address_tbl st1)"
      "address_key r = createAddressHash lower md5 split_left"
    using createAddress_returns_row [of lower md5 st split_left] by blast
  from createAddress_again [OF same, of st] first
  have second: "createAddress lower md5 st1 split_right = (st1, Some r)"
    by simp
  from differ same first second stored show ?thesis
    by auto
qed

text \<open>On the empty tables the first request stores the Salem row, and the second
  request, with another city and another state, gets the Salem row back.\<close>

theorem unseparated_fields_collide_witness:
  "lowers_ascii toLowerCase_sample \<and>
   normalized_fields toLowerCase_sample split_left \<noteq>
     normalized_fields toLowerCase_sample split_right \<and>
   createAddressHash toLowerCase_sample id split_left = str ''ussalemor97301'' \<and>
   createAddressHash toLowerCase_sample id split_right = str ''ussalemor97301'' \<and>
   createAddress toLowerCase_sample id empty_db split_left = (db_salem, Some row_salem) \<and>
   createAddress toLowerCase_sample id db_salem split_right = (db_salem, Some row_salem) \<and>
   address_tbl db_salem = [row_salem]"
proof -
  have left: "createAddressHash toLowerCase_sample id split_left = str ''ussalemor97301''"
    by code_simp
  have first: "createAddress toLowerCase_sample id empty_db split_left = (db_salem, Some row_salem)"
    by code_simp
  from unseparated_fields_collide [OF lowers_ascii_sample, of id empty_db] left first
  have "normalized_fields toLowerCase_sample split_left \<noteq>
      normalized_fields toLowerCase_sample split_right"
    and "createAddressHash toLowerCase_sample id split_right = str ''ussalemor97301''"
    and "createAddress toLowerCase_sample id db_salem split_right = (db_salem, Some row_salem)"
    by auto
  with lowers_ascii_sample left first show ?thesis
    by (simp add: db_salem_def)
qed

end
